theory Spec2Isabelle
  imports Complex_Main "HOL-Library.Multiset" "HOL-Library.Log_Nat"
begin

section \<open>Data model of the navigation agent\<close>

text \<open>
  The agent (\<^verbatim>\<open>Seq2SeqAgent\<close> in \<^verbatim>\<open>agent.py\<close>) reads observations that the
  environment hands out as dictionaries. Only the keys the agent reads are kept.
  Identifiers of viewpoints, scans and instructions are strings; features and distances
  are NumPy \<^verbatim>\<open>float32\<close> values, idealised here as real numbers (no rounding, no NaN).
  Comparisons of float32 numbers are exact and the difference of two of them has the sign
  of the exact difference, so the branches taken are those of the code; where a value
  itself is at stake, the float32 arithmetic is written out separately.
\<close>

record cand =
  viewpointId :: string
  pointId :: nat
  idx :: nat
  feature :: "real list"

record ob =
  instr_id :: string
  instr_encoding :: "int list"
  candidate :: "cand list"
  teacher :: string
  viewpoint :: string
  heading :: real
  elevation :: real
  distance :: real
  scan :: string
  gt_path :: "string list"

text \<open>The exceptions the modelled code can raise.\<close>

datatype error =
    IndexError
  | ValueError
  | AxisError
  | NameError
  | AssertionError
  | AttributeError
  | UnboundLocalError
  | ZeroDivisionError
  | SysExit

section \<open>Teacher oracle\<close>

text \<open>
  \<^verbatim>\<open>for k, candidate in enumerate(ob['candidate']): if ...: a[i] = k; break\<close>:
  the index of the first element that passes the test, if there is one.
\<close>

fun first_index :: "('a \<Rightarrow> bool) \<Rightarrow> 'a list \<Rightarrow> nat option" where
  "first_index P [] = None"
| "first_index P (x # xs) =
     (if P x then Some 0
      else (case first_index P xs of None \<Rightarrow> None | Some k \<Rightarrow> Some (Suc k)))"

text \<open>The body of the loop over the batch in \<^verbatim>\<open>_teacher_action\<close>, for one item.\<close>

definition teacher_item :: "int \<Rightarrow> ob \<Rightarrow> bool \<Rightarrow> int" where
  "teacher_item ignoreid o1 e =
     (if e then ignoreid
      else (case first_index (\<lambda>c. viewpointId c = teacher o1) (candidate o1) of
              Some k \<Rightarrow> int k
            | None \<Rightarrow> int (length (candidate o1))))"

text \<open>
  \<^verbatim>\<open>_teacher_action(obs, ended)\<close>; \<^verbatim>\<open>args.ignoreid\<close> is a parameter. Reading
  \<^verbatim>\<open>ended[i]\<close> beyond the end of \<^verbatim>\<open>ended\<close> raises.
\<close>

definition teacher_action :: "int \<Rightarrow> ob list \<Rightarrow> bool list \<Rightarrow> error + int list" where
  "teacher_action ignoreid obs ended =
     (if length ended < length obs then Inl IndexError
      else Inr (map (\<lambda>(o1, e). teacher_item ignoreid o1 e) (zip obs ended)))"

section \<open>Reward shaping\<close>

text \<open>
  The trajectory the agent keeps for one item: \<^verbatim>\<open>{'instr_id': ..., 'path': [(viewpoint,
  heading, elevation), ...]}\<close>.
\<close>

record traj_item =
  traj_instr_id :: string
  path :: "(string \<times> real \<times> real) list"

text \<open>
  \<^verbatim>\<open>if (last_dist[i] <= 1.0) and (dist[i]-last_dist[i] > 0.0):
      reward[i] -= (1.0 - last_dist[i]) * 2.0\<close>
\<close>

definition miss_penalty :: "real \<Rightarrow> real \<Rightarrow> real \<Rightarrow> real" where
  "miss_penalty last_dist_i dist_i r =
     (if last_dist_i \<le> 1 \<and> dist_i - last_dist_i > 0 then r - (1 - last_dist_i) * 2 else r)"

text \<open>
  The body of the loop over the batch in the \<^verbatim>\<open>if train_rl:\<close> block of \<^verbatim>\<open>rollout\<close>,
  for one item: the pair \<^verbatim>\<open>(reward[i], mask[i])\<close>, or the \<^verbatim>\<open>NameError\<close> of the
  branch where the quantified reward is neither positive nor negative.
\<close>

definition reward_item ::
  "bool \<Rightarrow> int \<Rightarrow> real \<Rightarrow> real \<Rightarrow> real \<Rightarrow> real \<Rightarrow> error + real \<times> real" where
  "reward_item ended_i action_idx dist_i last_dist_i ndtw_score_i last_ndtw_i =
     (if ended_i then Inr (0, 0)
      else if action_idx = - 1 then
        (if dist_i < 3 then Inr (2 + ndtw_score_i * 2, 1) else Inr (- 2, 1))
      else
        (let reward0 = - (dist_i - last_dist_i);
             ndtw_reward = ndtw_score_i - last_ndtw_i
         in if reward0 > 0 then Inr (miss_penalty last_dist_i dist_i (1 + ndtw_reward), 1)
            else if reward0 < 0 then Inr (miss_penalty last_dist_i dist_i (- 1 + ndtw_reward), 1)
            else Inl NameError))"

text \<open>The loop itself: the first item that raises ends it.\<close>

fun reward_loop ::
  "(bool \<times> int \<times> real \<times> real \<times> real \<times> real) list \<Rightarrow> error + (real \<times> real) list" where
  "reward_loop [] = Inr []"
| "reward_loop ((e, a, d, ld, n, lnd) # xs) =
     (case reward_item e a d ld n lnd of
        Inl err \<Rightarrow> Inl err
      | Inr rm \<Rightarrow> (case reward_loop xs of Inl err \<Rightarrow> Inl err | Inr rms \<Rightarrow> Inr (rm # rms)))"

text \<open>
  The whole block: \<^verbatim>\<open>dist\<close>, \<^verbatim>\<open>ndtw_score\<close>, \<^verbatim>\<open>reward\<close> and \<^verbatim>\<open>mask\<close> for the
  batch. \<^verbatim>\<open>ndtw\<close> stands for \<^verbatim>\<open>self.ndtw_criterion[scan](path, gt_path, metric='ndtw')\<close>,
  which lives outside the agent. All the arrays have the batch size.
\<close>

record rl_signal =
  sig_reward :: "real list"
  sig_mask :: "real list"
  sig_dist :: "real list"
  sig_ndtw :: "real list"

definition rl_rewards ::
  "(string \<Rightarrow> string list \<Rightarrow> string list \<Rightarrow> real) \<Rightarrow> ob list \<Rightarrow> traj_item list \<Rightarrow>
   bool list \<Rightarrow> int list \<Rightarrow> real list \<Rightarrow> real list \<Rightarrow> error + rl_signal" where
  "rl_rewards ndtw perm_obs traj ended cpu_a_t last_dist last_ndtw =
     (let dist = map distance perm_obs;
          ndtw_score = map (\<lambda>i. ndtw (scan (perm_obs ! i)) (map fst (path (traj ! i)))
                                    (gt_path (perm_obs ! i))) [0..<length perm_obs]
      in case reward_loop
                (map (\<lambda>i. (ended ! i, cpu_a_t ! i, dist ! i, last_dist ! i,
                            ndtw_score ! i, last_ndtw ! i)) [0..<length perm_obs]) of
           Inl err \<Rightarrow> Inl err
         | Inr rms \<Rightarrow> Inr \<lparr>sig_reward = map fst rms, sig_mask = map snd rms,
                           sig_dist = dist, sig_ndtw = ndtw_score\<rparr>)"

section \<open>Discounted return and the actor-critic loss\<close>

text \<open>
  \<^verbatim>\<open>discount_reward = np.zeros(batch_size); for i in range(batch_size):
      if not ended[i]: discount_reward[i] = last_value__[i]\<close>
\<close>

definition bootstrap :: "bool list \<Rightarrow> real list \<Rightarrow> real list" where
  "bootstrap ended last_value =
     map (\<lambda>i. if \<not> ended ! i then last_value ! i else 0) [0..<length ended]"

text \<open>\<^verbatim>\<open>discount_reward * args.gamma + rewards[t]\<close>, on vectors of the batch size.\<close>

definition discount_step :: "real \<Rightarrow> real list \<Rightarrow> real list \<Rightarrow> real list" where
  "discount_step gamma discount_reward reward_t =
     map (\<lambda>(d, r). d * gamma + r) (zip discount_reward reward_t)"

text \<open>
  The state of the backward loop \<^verbatim>\<open>for t in range(length-1, -1, -1)\<close>: the running
  return, the loss and the count of unmasked steps.
\<close>

record a2c_acc =
  discount_reward :: "real list"
  rl_loss :: real
  total :: real

text \<open>Python's \<^verbatim>\<open>xs[t]\<close> for \<^verbatim>\<open>t \<ge> 0\<close>.\<close>

definition index :: "'a list \<Rightarrow> nat \<Rightarrow> error + 'a" where
  "index xs t = (if t < length xs then Inr (xs ! t) else Inl IndexError)"

text \<open>
  One pass of the loop body at timestep \<^verbatim>\<open>t\<close>. The critic's values \<^verbatim>\<open>v_\<close> at the
  hidden state of step \<^verbatim>\<open>t\<close> are \<^verbatim>\<open>values ! t\<close>; \<^verbatim>\<open>sample\<close> says whether the
  feedback mode is \<^verbatim>\<open>'sample'\<close>, where the entropy term is added.
\<close>

definition a2c_step ::
  "real \<Rightarrow> bool \<Rightarrow> real list list \<Rightarrow> real list list \<Rightarrow> real list list \<Rightarrow> real list list \<Rightarrow>
   real list list \<Rightarrow> nat \<Rightarrow> a2c_acc \<Rightarrow> error + a2c_acc" where
  "a2c_step gamma sample rewards masks values policy_log_probs entropys t acc =
     (let r = discount_step gamma (discount_reward acc) (rewards ! t);
          mask = masks ! t;
          v = values ! t;
          a = map (\<lambda>(x, y). x - y) (zip r v)
      in case index policy_log_probs t of
           Inl err \<Rightarrow> Inl err
         | Inr lp \<Rightarrow>
             (let l1 = rl_loss acc + sum_list (map (\<lambda>(p, x, m). - p * x * m) (zip lp (zip a mask)));
                  l2 = l1 + sum_list (map (\<lambda>(x, m). x ^ 2 * m) (zip a mask)) * (1 / 2)
              in if sample then
                   (case index entropys t of
                      Inl err \<Rightarrow> Inl err
                    | Inr en \<Rightarrow>
                        Inr \<lparr>discount_reward = r,
                             rl_loss = l2 + sum_list (map (\<lambda>(h, m). - (1 / 100) * h * m) (zip en mask)),
                             total = total acc + sum_list mask\<rparr>)
                 else Inr \<lparr>discount_reward = r, rl_loss = l2, total = total acc + sum_list mask\<rparr>))"

text \<open>
  The loop from \<^verbatim>\<open>t = n - 1\<close> down to \<^verbatim>\<open>0\<close>; it is entered with \<^verbatim>\<open>n = len(rewards)\<close>.
\<close>

fun a2c_loop ::
  "real \<Rightarrow> bool \<Rightarrow> real list list \<Rightarrow> real list list \<Rightarrow> real list list \<Rightarrow> real list list \<Rightarrow>
   real list list \<Rightarrow> nat \<Rightarrow> a2c_acc \<Rightarrow> error + a2c_acc" where
  "a2c_loop gamma sample rewards masks values policy_log_probs entropys 0 acc = Inr acc"
| "a2c_loop gamma sample rewards masks values policy_log_probs entropys (Suc t) acc =
     (case a2c_step gamma sample rewards masks values policy_log_probs entropys t acc of
        Inl err \<Rightarrow> Inl err
      | Inr acc' \<Rightarrow> a2c_loop gamma sample rewards masks values policy_log_probs entropys t acc')"

section \<open>Candidate feature builder\<close>

text \<open>
  Tensors are nested lists: a batch of items, each a list of rows, each row a list of
  numbers. The definitions below describe \<^verbatim>\<open>_candidate_variable\<close> on the shapes that
  \<^verbatim>\<open>rollout\<close> builds: \<^verbatim>\<open>vis_taj\<close> has one item per observation, \<^verbatim>\<open>episode_len\<close> rows
  per item and rows of width \<^verbatim>\<open>feature_size + angle_feat_size\<close> (the source writes the
  width as 2176); \<^verbatim>\<open>input_a_t\<close> has one row of width \<^verbatim>\<open>angle_feat_size\<close> per
  observation; every candidate feature has the full width; \<^verbatim>\<open>t\<close> is at most
  \<^verbatim>\<open>episode_len\<close>. On other shapes the tensor library raises or broadcasts, which is
  not modelled.
\<close>

text \<open>The start of the slice \<^verbatim>\<open>[-a:]\<close> in a row of width \<^verbatim>\<open>n\<close> (\<^verbatim>\<open>[-0:]\<close> is the whole row).\<close>

definition neg_start :: "nat \<Rightarrow> nat \<Rightarrow> nat" where
  "neg_start a n = (if a = 0 then 0 else n - a)"

text \<open>
  The block under \<^verbatim>\<open>if t > 0:\<close> for one item, on the item's rows:
  \<^verbatim>\<open>candidate_feat[:, :t-1, :] = vis_taj[:, :t-1, :]
  candidate_feat[:, t-1, :self.feature_size] = vis_taj[:, t-1, :self.feature_size]
  candidate_feat[:, t-1, -args.angle_feat_size:] = input_a_t\<close>
\<close>

definition history_rows ::
  "nat \<Rightarrow> nat \<Rightarrow> nat \<Rightarrow> real list list \<Rightarrow> real list \<Rightarrow> real list list \<Rightarrow> real list list" where
  "history_rows feature_size angle_feat_size t vis_i a_i rows =
     (let rows1 = take (t - 1) vis_i @ drop (t - 1) rows;
          rows2 = rows1[t - 1 := take feature_size (vis_i ! (t - 1))
                                   @ drop feature_size (rows1 ! (t - 1))];
          rows3 = rows2[t - 1 := take (neg_start angle_feat_size (length (rows2 ! (t - 1))))
                                      (rows2 ! (t - 1)) @ a_i]
      in rows3)"

text \<open>
  \<^verbatim>\<open>for j, cc in enumerate(ob['candidate']): candidate_feat[i, j+t, :] = cc_feature\<close>,
  entered with \<^verbatim>\<open>j = 0\<close>.
\<close>

fun fill_candidates :: "nat \<Rightarrow> nat \<Rightarrow> cand list \<Rightarrow> real list list \<Rightarrow> real list list" where
  "fill_candidates t j [] rows = rows"
| "fill_candidates t j (cc # ccs) rows = fill_candidates t (Suc j) ccs (rows[j + t := feature cc])"

text \<open>
  \<^verbatim>\<open>candidate_leng = [len(ob['candidate']) + 1 + t for ob in obs]\<close>
\<close>

definition candidate_leng :: "ob list \<Rightarrow> nat \<Rightarrow> nat list" where
  "candidate_leng obs t = map (\<lambda>o1. length (candidate o1) + 1 + t) obs"

text \<open>
  \<^verbatim>\<open>_candidate_variable(obs, t, vis_taj, input_a_t)\<close>. \<^verbatim>\<open>max\<close> of an empty list
  raises.
\<close>

definition candidate_variable ::
  "nat \<Rightarrow> nat \<Rightarrow> ob list \<Rightarrow> nat \<Rightarrow> real list list list \<Rightarrow> real list list \<Rightarrow>
   error + real list list list \<times> nat list" where
  "candidate_variable feature_size angle_feat_size obs t vis_taj input_a_t =
     (let leng = candidate_leng obs t in
      if leng = [] then Inl ValueError
      else
        (let zeros = replicate (Max (set leng)) (replicate (feature_size + angle_feat_size) 0);
             candidate_feat =
               map (\<lambda>i. fill_candidates t 0 (candidate (obs ! i))
                           (if t > 0
                            then history_rows feature_size angle_feat_size t
                                   (vis_taj ! i) (input_a_t ! i) zeros
                            else zeros))
                 [0..<length obs]
         in Inr (candidate_feat, leng)))"

text \<open>
  \<^verbatim>\<open>get_input_feat(obs, t, vis_taj)\<close>; \<^verbatim>\<open>utils.angle_feature\<close> is a parameter.
\<close>

definition get_input_feat ::
  "(real \<Rightarrow> real \<Rightarrow> real list) \<Rightarrow> nat \<Rightarrow> nat \<Rightarrow> ob list \<Rightarrow> nat \<Rightarrow> real list list list \<Rightarrow>
   error + real list list \<times> real list list list \<times> nat list" where
  "get_input_feat angle_feature feature_size angle_feat_size obs t vis_taj =
     (let input_a_t = map (\<lambda>o1. angle_feature (heading o1) (elevation o1)) obs in
      case candidate_variable feature_size angle_feat_size obs t vis_taj input_a_t of
        Inl err \<Rightarrow> Inl err
      | Inr (candidate_feat, leng) \<Rightarrow> Inr (input_a_t, candidate_feat, leng))"

section \<open>Batch preprocessor\<close>

text \<open>
  \<^verbatim>\<open>np.argmax(row == padding_idx)\<close> is the position of the first padding token, and 0
  when the row has none; \<^verbatim>\<open>seq_lengths[seq_lengths == 0] = seq_tensor.shape[1]\<close> then
  replaces 0 by the width of the row.
\<close>

definition argmax_eq :: "int \<Rightarrow> int list \<Rightarrow> nat" where
  "argmax_eq padding_idx row =
     (case first_index (\<lambda>x. x = padding_idx) row of None \<Rightarrow> 0 | Some k \<Rightarrow> k)"

definition row_length :: "int \<Rightarrow> int list \<Rightarrow> nat" where
  "row_length padding_idx row =
     (if argmax_eq padding_idx row = 0 then length row else argmax_eq padding_idx row)"

record sorted_batch =
  sentence :: "int list list"
  attention_mask :: "int list list"
  token_type_ids :: "int list list"
  seq_lengths :: "nat list"
  perm_idx :: "nat list"

text \<open>
  \<^verbatim>\<open>_sort_batch(obs)\<close>. The sort \<^verbatim>\<open>seq_lengths.sort(0, True)\<close> belongs to the tensor
  library: \<^verbatim>\<open>argsort\<close> is the list of indices it returns, and the sorted values are the
  lengths at these indices. \<^verbatim>\<open>padding_idx\<close> comes from \<^verbatim>\<open>utils\<close>. NumPy rejects an
  empty batch, rows of different lengths and rows of width 0 (with an exception whose
  class depends on its version).
\<close>

definition sort_batch :: "(nat list \<Rightarrow> nat list) \<Rightarrow> int \<Rightarrow> ob list \<Rightarrow> error + sorted_batch" where
  "sort_batch argsort padding_idx obs =
     (let seq_tensor = map instr_encoding obs in
      if seq_tensor = [] then Inl AxisError
      else if \<not> list_all (\<lambda>row. length row = length (hd seq_tensor)) seq_tensor
        then Inl ValueError
      else if length (hd seq_tensor) = 0 then Inl ValueError
      else
        (let lengths = map (row_length padding_idx) seq_tensor;
             perm = argsort lengths;
             sorted_tensor = map (\<lambda>i. seq_tensor ! i) perm;
             mask = map (map (\<lambda>x. if x \<noteq> padding_idx then 1 else 0)) sorted_tensor
         in Inr \<lparr>sentence = sorted_tensor,
                 attention_mask = mask,
                 token_type_ids = map (map (\<lambda>_. 0)) mask,
                 seq_lengths = map (\<lambda>i. lengths ! i) perm,
                 perm_idx = perm\<rparr>))"



text \<open>
  Two sorts that keep the library's promise: one stable, one that reverses ties.
\<close>

definition stable_argsort :: "nat list \<Rightarrow> nat list" where
  "stable_argsort xs = sort_key (\<lambda>i. - int (xs ! i)) [0..<length xs]"



text \<open>\<^verbatim>\<open>obs[perm_idx]\<close>\<close>

definition permute :: "'a list \<Rightarrow> nat list \<Rightarrow> 'a list" where
  "permute xs perm = map (\<lambda>i. xs ! i) perm"

section \<open>The rollout\<close>

subsection \<open>Collaborators\<close>

text \<open>
  What \<^verbatim>\<open>rollout\<close> uses and the agent does not define: the configuration
  (\<^verbatim>\<open>args\<close>, \<^verbatim>\<open>utils.padding_idx\<close>), the tensor library's sort, the helpers of
  \<^verbatim>\<open>utils\<close>, the environment with its simulators, and the networks with the functions
  applied to their logits. They are the fields of one record. The environment is a value
  of type \<open>'e\<close> that the operations return changed; \<open>'h\<close> is the type of the hidden
  state \<^verbatim>\<open>h_t\<close>. Random draws (dropout, sampling) are taken as functions of their
  arguments. Logits after \<^verbatim>\<open>masked_fill_\<close> are \<open>real option\<close>, with \<open>None\<close> for
  \<^verbatim>\<open>-inf\<close>.

  \<^item> \<open>w_reset\<close>, \<open>w_get_obs\<close>: \<^verbatim>\<open>self.env.reset()\<close>, \<^verbatim>\<open>self.env._get_obs()\<close>.
  \<^item> \<open>w_sim_go e idx ob cand\<close>: the environment after the simulator \<^verbatim>\<open>idx\<close> has been
    tilted, turned and moved to the candidate as \<^verbatim>\<open>make_equiv_action\<close> does from the
    observation's view index, or the failed assertion. A simulator on which the turning
    loop never reaches the target is outside the model.
  \<^item> \<open>w_sim_state e idx\<close>: viewpoint, heading and elevation of simulator \<^verbatim>\<open>idx\<close>.
  \<^item> \<open>w_language_loss\<close>: the two divergence terms summed into \<^verbatim>\<open>dis_loss_l\<close>.
  \<^item> \<open>w_vln_bert\<close>: the visual pass, giving \<^verbatim>\<open>(h_t, visn_output, logit, dis_loss_c)\<close>.
  \<^item> \<open>w_criterion\<close>, \<open>w_argmax\<close>, \<open>w_log_prob\<close>, \<open>w_sample\<close>, \<open>w_entropy\<close>: the
    cross entropy against the target, \<^verbatim>\<open>logit.max(1)\<close>, the log-probability of the
    chosen actions, a draw from the categorical distribution, and its entropy.
\<close>

record ('e, 'h) world =
  w_padding_idx :: int
  w_ignoreid :: int
  w_feature_size :: nat
  w_angle_feat_size :: nat
  w_episode_len :: nat
  w_gamma :: real
  w_normalize_loss :: string
  w_argsort :: "nat list \<Rightarrow> nat list"
  w_angle_feature :: "real \<Rightarrow> real \<Rightarrow> real list"
  w_length2mask :: "nat list \<Rightarrow> bool list list"
  w_ndtw :: "string \<Rightarrow> string list \<Rightarrow> string list \<Rightarrow> real"
  w_reset :: "'e \<Rightarrow> 'e"
  w_get_obs :: "'e \<Rightarrow> ob list"
  w_sim_go :: "'e \<Rightarrow> nat \<Rightarrow> ob \<Rightarrow> cand \<Rightarrow> error + 'e"
  w_sim_state :: "'e \<Rightarrow> nat \<Rightarrow> string \<times> real \<times> real"
  w_language_loss :: "sorted_batch \<Rightarrow> real \<Rightarrow> real"
  w_vln_bert :: "sorted_batch \<Rightarrow> real \<Rightarrow> nat \<Rightarrow> real list list \<Rightarrow> real list list list \<Rightarrow>
                 nat list \<Rightarrow> 'h \<times> real list list list \<times> real list list \<times> real"
  w_critic :: "'h \<Rightarrow> real list"
  w_criterion :: "real option list list \<Rightarrow> int list \<Rightarrow> real"
  w_argmax :: "real option list list \<Rightarrow> int list"
  w_log_prob :: "real option list list \<Rightarrow> int list \<Rightarrow> real list"
  w_sample :: "nat \<Rightarrow> real option list list \<Rightarrow> int list"
  w_entropy :: "real option list list \<Rightarrow> real list"

subsection \<open>The agent and the state of the loop\<close>

text \<open>
  \<^verbatim>\<open>self.loss\<close> starts as the integer 0 (\<^verbatim>\<open>train\<close>, \<^verbatim>\<open>test\<close>) or the float 0.0
  (\<^verbatim>\<open>zero_grad\<close>) and becomes a tensor once a tensor is added; \<^verbatim>\<open>rollout\<close> tells the
  three apart (\<^verbatim>\<open>type(self.loss) is int\<close>, \<^verbatim>\<open>self.loss.item()\<close>).
\<close>

datatype loss = PyInt int | PyFloat real | Tensor real

fun loss_value :: "loss \<Rightarrow> real" where
  "loss_value (PyInt n) = real_of_int n"
| "loss_value (PyFloat x) = x"
| "loss_value (Tensor x) = x"

text \<open>\<^verbatim>\<open>self.loss += x\<close> for a tensor \<^verbatim>\<open>x\<close>.\<close>

definition add_tensor :: "loss \<Rightarrow> real \<Rightarrow> loss" where
  "add_tensor l x = Tensor (loss_value l + x)"

text \<open>
  The attributes of the agent that \<^verbatim>\<open>rollout\<close> reads or writes (the logs, which nothing
  reads back, are left out).
\<close>

record 'e agent =
  feedback :: string
  loss :: loss
  losses :: "real list"
  env :: 'e

text \<open>
  The local variables that live across the iterations of \<^verbatim>\<open>for t in
  range(self.episode_len)\<close>. \<^verbatim>\<open>dis_loss_c\<close> and the loop variable \<^verbatim>\<open>t\<close> are unbound
  until the first iteration.
\<close>

record ('e, 'h) rollout_state =
  cur_env :: 'e
  perm_obs :: "ob list"
  traj :: "traj_item list"
  last_dist :: "real list"
  last_ndtw :: "real list"
  ended :: "bool list"
  rewards :: "real list list"
  hidden_states :: "'h list"
  policy_log_probs :: "real list list"
  masks :: "real list list"
  entropys :: "real list list"
  ml_loss :: real
  vis_taj :: "real list list list"
  dis_loss_c :: "real option"
  loop_t :: "nat option"

subsection \<open>Pieces of one timestep\<close>

text \<open>Python's \<^verbatim>\<open>xs[k]\<close> for an integer \<^verbatim>\<open>k\<close>: a negative index counts from the end.\<close>

definition py_index :: "'a list \<Rightarrow> int \<Rightarrow> error + 'a" where
  "py_index xs k =
     (let n = int (length xs); j = (if k < 0 then n + k else k)
      in if 0 \<le> j \<and> j < n then Inr (xs ! nat j) else Inl IndexError)"

text \<open>\<^verbatim>\<open>obs[perm_idx]\<close>, which raises on an index beyond the batch.\<close>

definition py_permute :: "'a list \<Rightarrow> nat list \<Rightarrow> error + 'a list" where
  "py_permute xs perm =
     (if list_all (\<lambda>i. i < length xs) perm then Inr (permute xs perm) else Inl IndexError)"

text \<open>
  \<^verbatim>\<open>logit.masked_fill_(candidate_mask, -float('inf'))\<close>
\<close>

definition masked_fill :: "real list list \<Rightarrow> bool list list \<Rightarrow> real option list list" where
  "masked_fill logit candidate_mask =
     map (\<lambda>(row, mrow). map (\<lambda>(x, m). if m then None else Some x) (zip row mrow))
       (zip logit candidate_mask)"

text \<open>
  The first loop after the action is chosen:
  \<^verbatim>\<open>for i in range(len(candidate_feat_for_traj)):
      if cpu_a_t[i] == args.ignoreid: continue
      if t > 0: vis_taj[i,:t,:] = candidate_feat_for_traj[i,:t,:]\<close>
\<close>

definition keep_history ::
  "int \<Rightarrow> nat \<Rightarrow> int list \<Rightarrow> real list list list \<Rightarrow> real list list list \<Rightarrow> real list list list" where
  "keep_history ignoreid t cpu_a_t candidate_feat_for_traj vis =
     map (\<lambda>i. if cpu_a_t ! i = ignoreid then vis ! i
               else if t > 0 then take t (candidate_feat_for_traj ! i) @ drop t (vis ! i)
               else vis ! i)
       [0..<length candidate_feat_for_traj]"

text \<open>
  The test of the second loop:
  \<^verbatim>\<open>next_id == (candidate_leng[i]-1-t) or next_id == args.ignoreid or ended[i]\<close>
\<close>

definition is_stop :: "int \<Rightarrow> nat \<Rightarrow> nat \<Rightarrow> int \<Rightarrow> bool \<Rightarrow> bool" where
  "is_stop ignoreid leng_i t next_id ended_i \<longleftrightarrow>
     next_id = int leng_i - 1 - int t \<or> next_id = ignoreid \<or> ended_i"

text \<open>What the second loop leaves in \<^verbatim>\<open>cpu_a_t\<close>: \<^verbatim>\<open>-1\<close> where the test holds.\<close>

definition convert_actions :: "int \<Rightarrow> nat list \<Rightarrow> nat \<Rightarrow> int list \<Rightarrow> bool list \<Rightarrow> int list" where
  "convert_actions ignoreid leng t a_t ended_flags =
     map (\<lambda>i. if is_stop ignoreid (leng ! i) t (a_t ! i) (ended_flags ! i) then - 1 else a_t ! i)
       [0..<length a_t]"

text \<open>
  What the second loop writes to the memory bank, where the test fails:
  \<^verbatim>\<open>vis_taj[i, t, :self.feature_size] = visn_output[i, index, :]\<close>, with
  \<^verbatim>\<open>index = cpu_a_t[i]\<close>; the rows of \<^verbatim>\<open>visn_output\<close> have the width
  \<^verbatim>\<open>feature_size\<close>. The list argument holds the items still to visit.
\<close>

fun write_choices ::
  "nat \<Rightarrow> int \<Rightarrow> nat list \<Rightarrow> nat \<Rightarrow> int list \<Rightarrow> bool list \<Rightarrow> real list list list \<Rightarrow> nat list \<Rightarrow>
   real list list list \<Rightarrow> error + real list list list" where
  "write_choices fs ignoreid leng t a_t ended_flags visn_output [] vis = Inr vis"
| "write_choices fs ignoreid leng t a_t ended_flags visn_output (i # rest) vis =
     (if is_stop ignoreid (leng ! i) t (a_t ! i) (ended_flags ! i)
      then write_choices fs ignoreid leng t a_t ended_flags visn_output rest vis
      else (case py_index (visn_output ! i) (a_t ! i) of
              Inl err \<Rightarrow> Inl err
            | Inr row \<Rightarrow>
                write_choices fs ignoreid leng t a_t ended_flags visn_output rest
                  (vis[i := (vis ! i)[t := take fs row @ drop fs (vis ! i ! t)]])))"

text \<open>
  \<^verbatim>\<open>make_equiv_action(a_t, perm_obs, perm_idx, traj)\<close>: for each pair of
  \<^verbatim>\<open>enumerate(perm_idx)\<close>, an action other than \<^verbatim>\<open>-1\<close> selects a candidate, moves the
  simulator to it and appends the simulator's new state to the path.
\<close>

fun make_equiv_action ::
  "('e, 'h) world \<Rightarrow> int list \<Rightarrow> ob list \<Rightarrow> (nat \<times> nat) list \<Rightarrow> 'e \<Rightarrow> traj_item list \<Rightarrow>
   error + 'e \<times> traj_item list" where
  "make_equiv_action W a_t obs [] e tr = Inr (e, tr)"
| "make_equiv_action W a_t obs ((i, sim) # rest) e tr =
     (if a_t ! i \<noteq> - 1 then
        (case py_index (candidate (obs ! i)) (a_t ! i) of
           Inl err \<Rightarrow> Inl err
         | Inr select_candidate \<Rightarrow>
             (case w_sim_go W e sim (obs ! i) select_candidate of
                Inl err \<Rightarrow> Inl err
              | Inr e' \<Rightarrow>
                  make_equiv_action W a_t obs rest e'
                    (tr[i := (tr ! i)\<lparr>path := path (tr ! i) @ [w_sim_state W e' sim]\<rparr>])))
      else make_equiv_action W a_t obs rest e tr)"

text \<open>
  \<^verbatim>\<open>ended[:] = np.logical_or(ended, (cpu_a_t == -1))\<close>
\<close>

definition update_ended :: "bool list \<Rightarrow> int list \<Rightarrow> bool list" where
  "update_ended ended_flags cpu_a_t =
     map (\<lambda>i. ended_flags ! i \<or> cpu_a_t ! i = - 1) [0..<length ended_flags]"

subsection \<open>One timestep\<close>

text \<open>
  The branch on \<^verbatim>\<open>self.feedback\<close>: the chosen actions, and what is appended to
  \<^verbatim>\<open>policy_log_probs\<close> and to \<^verbatim>\<open>entropys\<close>. Any other mode ends the process.
\<close>

definition choose_action ::
  "('e, 'h) world \<Rightarrow> string \<Rightarrow> nat \<Rightarrow> real option list list \<Rightarrow> int list \<Rightarrow>
   error + int list \<times> real list list \<times> real list list" where
  "choose_action W fb t logit target =
     (if fb = ''teacher'' then Inr (target, [], [])
      else if fb = ''argmax'' then
        (let a_t = w_argmax W logit in Inr (a_t, [w_log_prob W logit a_t], []))
      else if fb = ''sample'' then
        (let a_t = w_sample W t logit
         in Inr (a_t, [w_log_prob W logit a_t], [w_entropy W logit]))
      else Inl SysExit)"

text \<open>
  The \<^verbatim>\<open>if train_rl:\<close> block inside the loop: rewards and masks are appended and the
  distances and similarity scores become the previous ones. \<^verbatim>\<open>old_ended\<close> is
  \<^verbatim>\<open>ended\<close> before this timestep's update.
\<close>

definition reward_block ::
  "('e, 'h) world \<Rightarrow> bool \<Rightarrow> bool list \<Rightarrow> int list \<Rightarrow> ('e, 'h) rollout_state \<Rightarrow>
   error + ('e, 'h) rollout_state" where
  "reward_block W train_rl old_ended cpu_a_t s =
     (if train_rl then
        (case rl_rewards (w_ndtw W) (perm_obs s) (traj s) old_ended cpu_a_t
                (last_dist s) (last_ndtw s) of
           Inl err \<Rightarrow> Inl err
         | Inr sg \<Rightarrow> Inr (s\<lparr>rewards := rewards s @ [sig_reward sg],
                               masks := masks s @ [sig_mask sg],
                               last_dist := sig_dist sg,
                               last_ndtw := sig_ndtw sg\<rparr>))
      else Inr s)"

text \<open>
  The body of \<^verbatim>\<open>for t in range(self.episode_len)\<close>, up to and including the update of
  \<^verbatim>\<open>ended\<close>. \<^verbatim>\<open>sb\<close> is what \<^verbatim>\<open>_sort_batch\<close> returned for the episode.
\<close>

definition rollout_step ::
  "('e, 'h) world \<Rightarrow> string \<Rightarrow> bool \<Rightarrow> sorted_batch \<Rightarrow> real \<Rightarrow> nat \<Rightarrow> ('e, 'h) rollout_state \<Rightarrow>
   error + ('e, 'h) rollout_state" where
  "rollout_step W fb train_rl sb att_drop_rate t s =
     (case get_input_feat (w_angle_feature W) (w_feature_size W) (w_angle_feat_size W)
             (perm_obs s) t (vis_taj s) of
        Inl err \<Rightarrow> Inl err
      | Inr (input_a_t, candidate_feat, leng) \<Rightarrow>
      (case w_vln_bert W sb att_drop_rate t input_a_t candidate_feat leng of
        (h_t, visn_output, logit0, dlc) \<Rightarrow>
      (let logit = masked_fill logit0 (w_length2mask W (map (\<lambda>l. l - t) leng)) in
       case teacher_action (w_ignoreid W) (perm_obs s) (ended s) of
        Inl err \<Rightarrow> Inl err
      | Inr target \<Rightarrow>
      (case choose_action W fb t logit target of
        Inl err \<Rightarrow> Inl err
      | Inr (a_t, lps, ents) \<Rightarrow>
      (case write_choices (w_feature_size W) (w_ignoreid W) leng t a_t (ended s) visn_output
              [0..<length a_t]
              (keep_history (w_ignoreid W) t a_t candidate_feat (vis_taj s)) of
        Inl err \<Rightarrow> Inl err
      | Inr vis \<Rightarrow>
      (let cpu_a_t = convert_actions (w_ignoreid W) leng t a_t (ended s) in
       case make_equiv_action W cpu_a_t (perm_obs s)
              (zip [0..<length (perm_idx sb)] (perm_idx sb)) (cur_env s) (traj s) of
        Inl err \<Rightarrow> Inl err
      | Inr (e', tr) \<Rightarrow>
      (case py_permute (w_get_obs W e') (perm_idx sb) of
        Inl err \<Rightarrow> Inl err
      | Inr obs' \<Rightarrow>
      (case reward_block W train_rl (ended s) cpu_a_t
              (s\<lparr>cur_env := e', perm_obs := obs', traj := tr,
                 hidden_states := hidden_states s @ [h_t],
                 policy_log_probs := policy_log_probs s @ lps,
                 entropys := entropys s @ ents,
                 ml_loss := ml_loss s + w_criterion W logit target,
                 vis_taj := vis, dis_loss_c := Some dlc, loop_t := Some t\<rparr>) of
        Inl err \<Rightarrow> Inl err
      | Inr s' \<Rightarrow> Inr (s'\<lparr>ended := update_ended (ended s) cpu_a_t\<rparr>)))))))))"

subsection \<open>The loop\<close>

text \<open>
  \<^verbatim>\<open>for t in range(self.episode_len): ...; if ended.all(): break\<close>, entered at
  timestep \<^verbatim>\<open>t\<close> in state \<^verbatim>\<open>s\<close>.
\<close>

function rollout_loop ::
  "('e, 'h) world \<Rightarrow> string \<Rightarrow> bool \<Rightarrow> sorted_batch \<Rightarrow> real \<Rightarrow> nat \<Rightarrow> ('e, 'h) rollout_state \<Rightarrow>
   error + ('e, 'h) rollout_state" where
  "rollout_loop W fb train_rl sb att_drop_rate t s =
     (if t < w_episode_len W then
        (case rollout_step W fb train_rl sb att_drop_rate t s of
           Inl err \<Rightarrow> Inl err
         | Inr s' \<Rightarrow>
             if list_all (\<lambda>b. b) (ended s') then Inr s'
             else rollout_loop W fb train_rl sb att_drop_rate (Suc t) s')
      else Inr s)"
  by pat_completeness auto
termination
  by (relation "measure (\<lambda>(W, fb, train_rl, sb, att_drop_rate, t, s). w_episode_len W - t)") auto

text \<open>
  The states the loop goes through: the state it is entered with, then the state after
  each iteration that completes.
\<close>

function rollout_trace ::
  "('e, 'h) world \<Rightarrow> string \<Rightarrow> bool \<Rightarrow> sorted_batch \<Rightarrow> real \<Rightarrow> nat \<Rightarrow> ('e, 'h) rollout_state \<Rightarrow>
   ('e, 'h) rollout_state list" where
  "rollout_trace W fb train_rl sb att_drop_rate t s =
     s # (if t < w_episode_len W then
            (case rollout_step W fb train_rl sb att_drop_rate t s of
               Inl err \<Rightarrow> []
             | Inr s' \<Rightarrow>
                 if list_all (\<lambda>b. b) (ended s') then [s']
                 else rollout_trace W fb train_rl sb att_drop_rate (Suc t) s')
          else [])"
  by pat_completeness auto
termination
  by (relation "measure (\<lambda>(W, fb, train_rl, sb, att_drop_rate, t, s). w_episode_len W - t)") auto

subsection \<open>After the loop\<close>

text \<open>
  The \<^verbatim>\<open>if train_rl:\<close> block after the loop: the value of the last state, the backward
  pass and the normalisation; the result is \<^verbatim>\<open>rl_loss\<close>. The loop variable \<^verbatim>\<open>t\<close> is
  unbound when the loop has not run. The count \<^verbatim>\<open>total\<close> is positive whenever a mask
  was recorded for a batch that was not ended, which is the case after the first
  timestep; division by a zero count is not modelled.
\<close>

definition a2c_update ::
  "('e, 'h) world \<Rightarrow> string \<Rightarrow> sorted_batch \<Rightarrow> real \<Rightarrow> nat \<Rightarrow> ('e, 'h) rollout_state \<Rightarrow>
   error + real" where
  "a2c_update W fb sb att_drop_rate batch_size s =
     (case loop_t s of
        None \<Rightarrow> Inl UnboundLocalError
      | Some t \<Rightarrow>
      (case get_input_feat (w_angle_feature W) (w_feature_size W) (w_angle_feat_size W)
              (perm_obs s) (t + 1) (vis_taj s) of
        Inl err \<Rightarrow> Inl err
      | Inr (input_a_t, candidate_feat, leng) \<Rightarrow>
      (case w_vln_bert W sb att_drop_rate (t + 1) input_a_t candidate_feat leng of
        (last_h, visn_output, logit0, dlc) \<Rightarrow>
      (case a2c_loop (w_gamma W) (fb = ''sample'') (rewards s) (masks s)
              (map (w_critic W) (hidden_states s)) (policy_log_probs s) (entropys s)
              (length (rewards s))
              \<lparr>discount_reward = bootstrap (ended s) (w_critic W last_h),
               rl_loss = 0, total = 0\<rparr> of
        Inl err \<Rightarrow> Inl err
      | Inr acc \<Rightarrow>
          if w_normalize_loss W = ''total'' then Inr (rl_loss acc / total acc)
          else if w_normalize_loss W = ''batch'' then Inr (rl_loss acc / real batch_size)
          else if w_normalize_loss W = ''none'' then Inr (rl_loss acc)
          else Inl AssertionError))))"

text \<open>
  The three optional terms added to \<^verbatim>\<open>self.loss\<close> after the reinforcement term.
  Without an iteration of the loop \<^verbatim>\<open>ml_loss\<close> is still a float, which has no
  \<^verbatim>\<open>item()\<close>, and \<^verbatim>\<open>dis_loss_c\<close> is unbound.
\<close>

definition add_losses ::
  "real option \<Rightarrow> real option \<Rightarrow> real option \<Rightarrow> real \<Rightarrow> nat \<Rightarrow> ('e, 'h) rollout_state \<Rightarrow>
   loss \<Rightarrow> error + loss" where
  "add_losses train_ml train_dis_l train_dis_c dis_loss_l batch_size s l0 =
     (case (case train_ml of
              None \<Rightarrow> Inr l0
            | Some w \<Rightarrow>
                if loop_t s = None then Inl AttributeError
                else Inr (add_tensor l0 (ml_loss s * w / real batch_size))) of
        Inl err \<Rightarrow> Inl err
      | Inr l1 \<Rightarrow>
          (let l2 = (case train_dis_l of None \<Rightarrow> l1 | Some w \<Rightarrow> add_tensor l1 (dis_loss_l * w))
           in case train_dis_c of
                None \<Rightarrow> Inr l2
              | Some w \<Rightarrow>
                  (case dis_loss_c s of
                     None \<Rightarrow> Inl UnboundLocalError
                   | Some d \<Rightarrow> Inr (add_tensor l2 (d * w)))))"

text \<open>
  \<^verbatim>\<open>if type(self.loss) is int: self.losses.append(0.)
  else: self.losses.append(self.loss.item() / self.episode_len)\<close>
\<close>

definition record_loss :: "nat \<Rightarrow> loss \<Rightarrow> real list \<Rightarrow> error + real list" where
  "record_loss episode_len l ls =
     (case l of
        PyInt n \<Rightarrow> Inr (ls @ [0])
      | PyFloat x \<Rightarrow> Inl AttributeError
      | Tensor x \<Rightarrow>
          if episode_len = 0 then Inl ZeroDivisionError else Inr (ls @ [x / real episode_len]))"

subsection \<open>The whole rollout\<close>

text \<open>
  The state the loop is entered with: the starting point of every trajectory, the initial
  distances and similarity scores, nothing ended, and an all-zero memory bank of
  \<^verbatim>\<open>episode_len\<close> rows of width 2176 per item.
\<close>

definition initial_state ::
  "('e, 'h) world \<Rightarrow> 'e \<Rightarrow> nat \<Rightarrow> ob list \<Rightarrow> ('e, 'h) rollout_state" where
  "initial_state W e batch_size obs0 =
     (let tr = map (\<lambda>o1. \<lparr>traj_instr_id = instr_id o1,
                            path = [(viewpoint o1, heading o1, elevation o1)]\<rparr>) obs0
      in \<lparr>cur_env = e, perm_obs = obs0, traj = tr,
          last_dist = map distance obs0,
          last_ndtw = map (\<lambda>i. w_ndtw W (scan (obs0 ! i)) (map fst (path (tr ! i)))
                                   (gt_path (obs0 ! i))) [0..<length obs0],
          ended = replicate batch_size False,
          rewards = [], hidden_states = [], policy_log_probs = [], masks = [],
          entropys = [], ml_loss = 0,
          vis_taj = replicate batch_size (replicate (w_episode_len W) (replicate 2176 0)),
          dis_loss_c = None, loop_t = None\<rparr>)"

text \<open>
  Everything after \<^verbatim>\<open>train_rl\<close> has been settled: \<^verbatim>\<open>rollout\<close> from \<^verbatim>\<open>if reset:\<close> to
  \<^verbatim>\<open>return traj\<close>. The result is the returned trajectories and the agent as the call
  leaves it. The sort is taken to return as many indices as it was given lengths.
\<close>

definition rollout_body ::
  "('e, 'h) world \<Rightarrow> 'e agent \<Rightarrow> real option \<Rightarrow> real option \<Rightarrow> real option \<Rightarrow> real \<Rightarrow> bool \<Rightarrow> bool \<Rightarrow>
   error + traj_item list \<times> 'e agent" where
  "rollout_body W ag train_ml train_dis_l train_dis_c att_drop_rate train_rl reset =
     (let e0 = (if reset then w_reset W (env ag) else env ag);
          obs = w_get_obs W e0;
          batch_size = length obs
      in case sort_batch (w_argsort W) (w_padding_idx W) obs of
        Inl err \<Rightarrow> Inl err
      | Inr sb \<Rightarrow>
      (case py_permute obs (perm_idx sb) of
        Inl err \<Rightarrow> Inl err
      | Inr obs0 \<Rightarrow>
      (let dis_loss_l = w_language_loss W sb att_drop_rate in
       case rollout_loop W (feedback ag) train_rl sb att_drop_rate 0
              (initial_state W e0 batch_size obs0) of
        Inl err \<Rightarrow> Inl err
      | Inr s \<Rightarrow>
      (case (if train_rl then
               (case a2c_update W (feedback ag) sb att_drop_rate batch_size s of
                  Inl err \<Rightarrow> Inl err
                | Inr rl \<Rightarrow> Inr (add_tensor (loss ag) rl))
             else Inr (loss ag)) of
        Inl err \<Rightarrow> Inl err
      | Inr l1 \<Rightarrow>
      (case add_losses train_ml train_dis_l train_dis_c dis_loss_l batch_size s l1 of
        Inl err \<Rightarrow> Inl err
      | Inr l2 \<Rightarrow>
      (case record_loss (w_episode_len W) l2 (losses ag) of
        Inl err \<Rightarrow> Inl err
      | Inr ls \<Rightarrow> Inr (traj s, ag\<lparr>loss := l2, losses := ls, env := cur_env s\<rparr>)))))))"

text \<open>
  \<^verbatim>\<open>rollout(train_ml, train_dis_l, train_dis_c, att_drop_rate, train_rl, reset)\<close>:
  \<^verbatim>\<open>if self.feedback == 'teacher' or self.feedback == 'argmax': train_rl = False\<close>,
  then the rest.
\<close>

definition rollout ::
  "('e, 'h) world \<Rightarrow> 'e agent \<Rightarrow> real option \<Rightarrow> real option \<Rightarrow> real option \<Rightarrow> real \<Rightarrow> bool \<Rightarrow> bool \<Rightarrow>
   error + traj_item list \<times> 'e agent" where
  "rollout W ag train_ml train_dis_l train_dis_c att_drop_rate train_rl reset =
     rollout_body W ag train_ml train_dis_l train_dis_c att_drop_rate
       (if feedback ag = ''teacher'' \<or> feedback ag = ''argmax'' then False else train_rl)
       reset"

section \<open>The return in float32\<close>

text \<open>
  The arrays of the backward loop are created with \<^verbatim>\<open>np.float32\<close>, so each product
  and each sum of \<^verbatim>\<open>discount_reward * args.gamma + rewards[t]\<close> is rounded to the
  nearest float32, ties to the even significand, and the Python float \<^verbatim>\<open>args.gamma\<close>
  is first converted to float32. A float32 is represented by the rational number it
  stands for. The rounding below is the one of the normal range (24 significant bits,
  no overflow and no subnormal numbers), which is where the numbers of the example lie.
\<close>

definition pow2 :: "int \<Rightarrow> rat" where
  "pow2 n = (if n \<ge> 0 then 2 ^ nat n else 1 / 2 ^ nat (- n))"

text \<open>The exponent \<open>e\<close> of a number other than 0: \<open>2\<^sup>e \<le> \<bar>x\<bar> < 2\<^sup>e\<^sup>+\<^sup>1\<close>.\<close>

definition exponent :: "rat \<Rightarrow> int" where
  "exponent x =
     (let (a, b) = quotient_of \<bar>x\<bar>; d = bitlen a - bitlen b
      in if of_int b * pow2 d \<le> (of_int a :: rat) then d else d - 1)"

definition round_half_even :: "rat \<Rightarrow> int" where
  "round_half_even q =
     (let f = \<lfloor>q\<rfloor>; r = q - of_int f
      in if r < 1 / 2 then f else if r > 1 / 2 then f + 1 else if even f then f else f + 1)"

definition round32 :: "rat \<Rightarrow> rat" where
  "round32 x =
     (if x = 0 then 0
      else (let ulp = pow2 (exponent x - 23) in of_int (round_half_even (x / ulp)) * ulp))"

text \<open>
  \<^verbatim>\<open>discount_reward * args.gamma + rewards[t]\<close> on float32 vectors.
\<close>

definition discount_step32 :: "rat \<Rightarrow> rat list \<Rightarrow> rat list \<Rightarrow> rat list" where
  "discount_step32 g ds reward_t =
     map (\<lambda>(d, r). round32 (round32 (d * round32 g) + r)) (zip ds reward_t)"

text \<open>
  The backward loop \<^verbatim>\<open>for t in range(length-1, -1, -1)\<close> again, following only the
  return.
\<close>

fun discount_loop32 :: "rat \<Rightarrow> rat list list \<Rightarrow> nat \<Rightarrow> rat list \<Rightarrow> rat list" where
  "discount_loop32 g rs 0 d = d"
| "discount_loop32 g rs (Suc t) d = discount_loop32 g rs t (discount_step32 g d (rs ! t))"

section \<open>Example inputs\<close>

text \<open>Small observations on which the properties below are evaluated.\<close>

definition example_cand :: "string \<Rightarrow> real list \<Rightarrow> cand" where
  "example_cand v f = \<lparr>viewpointId = v, pointId = 0, idx = 0, feature = f\<rparr>"

definition example_ob :: "int list \<Rightarrow> cand list \<Rightarrow> string \<Rightarrow> real \<Rightarrow> ob" where
  "example_ob enc cs tch d =
     \<lparr>instr_id = ''i'', instr_encoding = enc, candidate = cs, teacher = tch,
      viewpoint = ''v'', heading = 0, elevation = 0, distance = d, scan = ''s'',
      gt_path = []\<rparr>"

definition three_cands :: "cand list" where
  "three_cands = [example_cand ''A'' [], example_cand ''B'' [], example_cand ''C'' []]"

text \<open>
  A world with two simulators and two places: at \<^verbatim>\<open>A\<close> the only candidate leads to
  \<^verbatim>\<open>B\<close>, which is where the teacher wants to go; at \<^verbatim>\<open>B\<close> there is no candidate, so
  the teacher stops. The environment counts the moves made: the first item is at
  \<^verbatim>\<open>B\<close> after one move, the second after three. Features have width 2 (one visual
  entry, one angle entry), and the networks return constants.
\<close>

definition place_A :: ob where
  "place_A = example_ob [5, 6, 0] [example_cand ''B'' [7, 8]] ''B'' 4"

definition place_B :: ob where
  "place_B = example_ob [5, 6, 0] [] ''B'' 2"

definition example_world :: "(nat, unit) world" where
  "example_world =
     \<lparr>w_padding_idx = 0, w_ignoreid = - 100, w_feature_size = 1, w_angle_feat_size = 1,
      w_episode_len = 3, w_gamma = 9 / 10, w_normalize_loss = ''total'',
      w_argsort = stable_argsort,
      w_angle_feature = (\<lambda>h e. [1]),
      w_length2mask = (\<lambda>ls. map (\<lambda>l. replicate l False) ls),
      w_ndtw = (\<lambda>s p g. 0),
      w_reset = (\<lambda>e. 0),
      w_get_obs = (\<lambda>e. [if e = 0 then place_A else place_B,
                          if e < 3 then place_A else place_B]),
      w_sim_go = (\<lambda>e sim o1 c. Inr (Suc e)),
      w_sim_state = (\<lambda>e sim. (''B'', 0, 0)),
      w_language_loss = (\<lambda>sb r. 0),
      w_vln_bert = (\<lambda>sb r t a cf leng.
                      ((), [[[5], [5], [5]], [[5], [5], [5]]], [[0, 0, 0], [0, 0, 0]], 0)),
      w_critic = (\<lambda>h. [0, 0]),
      w_criterion = (\<lambda>lg tg. 0),
      w_argmax = (\<lambda>lg. [0, 0]),
      w_log_prob = (\<lambda>lg a. [0, 0]),
      w_sample = (\<lambda>t lg. [0, 0]),
      w_entropy = (\<lambda>lg. [0, 0])\<rparr>"

definition example_batch :: sorted_batch where
  "example_batch =
     \<lparr>sentence = [[5, 6, 0], [5, 6, 0]], attention_mask = [[1, 1, 0], [1, 1, 0]],
      token_type_ids = [[0, 0, 0], [0, 0, 0]], seq_lengths = [2, 2], perm_idx = [0, 1]\<rparr>"

text \<open>The state at the start of an episode of that world, with a memory bank of width 2.\<close>

definition example_state :: "(nat, unit) rollout_state" where
  "example_state =
     \<lparr>cur_env = 0,
      perm_obs = [place_A, place_A],
      traj = [\<lparr>traj_instr_id = ''i'', path = [(''v'', 0, 0)]\<rparr>,
              \<lparr>traj_instr_id = ''i'', path = [(''v'', 0, 0)]\<rparr>],
      last_dist = [4, 4], last_ndtw = [0, 0], ended = [False, False],
      rewards = [], hidden_states = [], policy_log_probs = [], masks = [], entropys = [],
      ml_loss = 0,
      vis_taj = [[[0, 0], [0, 0], [0, 0]], [[0, 0], [0, 0], [0, 0]]],
      dis_loss_c = None, loop_t = None\<rparr>"

definition example_agent :: "string \<Rightarrow> nat agent" where
  "example_agent fb = \<lparr>feedback = fb, loss = PyInt 0, losses = [], env = 0\<rparr>"

section \<open>Properties\<close>

subsection \<open>Teacher oracle\<close>

lemma first_index_None: "first_index P xs = None \<longleftrightarrow> (\<forall>x \<in> set xs. \<not> P x)"
  by (induction xs) (auto split: option.splits)

lemma first_index_Some:
  "first_index P xs = Some k \<longleftrightarrow> k < length xs \<and> P (xs ! k) \<and> (\<forall>j < k. \<not> P (xs ! j))"
proof (induction xs arbitrary: k)
  case Nil
  then show ?case by simp
next
  case (Cons x xs)
  show ?case
  proof (cases "P x")
    case True
    then show ?thesis by (cases k) auto
  next
    case False
    show ?thesis
    proof (cases k)
      case 0
      with False show ?thesis by (auto split: option.splits)
    next
      case (Suc m)
      have "(\<forall>j < Suc m. \<not> P ((x # xs) ! j)) \<longleftrightarrow> (\<forall>j < m. \<not> P (xs ! j))"
        using False by (auto simp: less_Suc_eq_0_disj)
      with Suc False Cons.IH [of m] show ?thesis
        by (auto split: option.splits)
    qed
  qed
qed

lemma teacher_action_nth:
  assumes "i < length obs" and "length obs \<le> length flags"
  shows "teacher_action ignoreid obs flags
           = Inr (map (\<lambda>(o1, e). teacher_item ignoreid o1 e) (zip obs flags))"
    and "map (\<lambda>(o1, e). teacher_item ignoreid o1 e) (zip obs flags) ! i
           = teacher_item ignoreid (obs ! i) (flags ! i)"
  using assms by (simp_all add: teacher_action_def)

text \<open>
  Claim C4. For a batch whose \<^verbatim>\<open>ended\<close> flags cover every item, \<^verbatim>\<open>_teacher_action\<close>
  returns one action per item. At an ended item the action is the ignore sentinel. At an
  item that has not ended, the action is the index of the (first) candidate whose
  viewpoint is the teacher's next viewpoint, and it is the number of candidates, the stop
  index, when no candidate matches.
\<close>

theorem teacher_action_spec:
  assumes "i < length obs" and "length obs \<le> length flags"
  shows "\<exists>a. teacher_action ignoreid obs flags = Inr a \<and> length a = length obs \<and>
    (flags ! i \<longrightarrow> a ! i = ignoreid) \<and>
    (\<not> flags ! i \<longrightarrow>
       (\<forall>k. k < length (candidate (obs ! i)) \<and>
            viewpointId (candidate (obs ! i) ! k) = teacher (obs ! i) \<and>
            (\<forall>j < k. viewpointId (candidate (obs ! i) ! j) \<noteq> teacher (obs ! i))
            \<longrightarrow> a ! i = int k) \<and>
       ((\<forall>c \<in> set (candidate (obs ! i)). viewpointId c \<noteq> teacher (obs ! i))
            \<longrightarrow> a ! i = int (length (candidate (obs ! i)))))"
proof -
  let ?a = "map (\<lambda>(o1, e). teacher_item ignoreid o1 e) (zip obs flags)"
  let ?P = "\<lambda>c. viewpointId c = teacher (obs ! i)"
  let ?cs = "candidate (obs ! i)"
  have ret: "teacher_action ignoreid obs flags = Inr ?a"
    and nth: "?a ! i = teacher_item ignoreid (obs ! i) (flags ! i)"
    using teacher_action_nth [OF assms] by simp_all
  have len: "length ?a = length obs"
    using assms by simp
  have e: "flags ! i \<longrightarrow> ?a ! i = ignoreid"
    unfolding nth by (simp add: teacher_item_def)
  have m: "?a ! i = int k"
    if "\<not> flags ! i" "k < length ?cs" "?P (?cs ! k)" "\<forall>j < k. \<not> ?P (?cs ! j)" for k
  proof -
    from that have "first_index ?P ?cs = Some k"
      by (simp add: first_index_Some)
    with that(1) show ?thesis
      unfolding nth by (simp add: teacher_item_def)
  qed
  have s: "?a ! i = int (length ?cs)" if "\<not> flags ! i" "\<forall>c \<in> set ?cs. \<not> ?P c"
  proof -
    from that have "first_index ?P ?cs = None"
      by (simp add: first_index_None)
    with that(1) show ?thesis
      unfolding nth by (simp add: teacher_item_def)
  qed
  from ret len e m s show ?thesis
    by blast
qed


theorem teacher_action_spec_witness:
  "teacher_action (- 100)
     [example_ob [] three_cands ''B'' 1, example_ob [] three_cands ''Z'' 1,
      example_ob [] three_cands ''A'' 1] [False, False, True] = Inr [1, 3, - 100]"
  using teacher_action_spec [of 0 "[example_ob [] three_cands ''B'' 1,
      example_ob [] three_cands ''Z'' 1, example_ob [] three_cands ''A'' 1]"
      "[False, False, True]" "- 100"]
  by (simp add: teacher_action_def teacher_item_def example_ob_def three_cands_def
      example_cand_def)

subsection \<open>Reward shaping\<close>









subsection \<open>Discounted return\<close>

text \<open>
  Claim C9, as the code has it. On a single item with three timesteps, the backward loop
  leaves the return \<open>r0 + g * (r1 + g * (r2 + g * b))\<close> from the rewards \<open>r0\<close>,
  \<open>r1\<close>, \<open>r2\<close>, the discount \<open>g\<close> and the starting value \<open>b\<close>, whatever the
  masks, the critic's values, the log-probabilities and the entropies are. With the
  rewards 1, -1 and 2, the discount 0.9, the starting value 0 of an ended item and masks
  that are all 1, this is 1.72 in the arithmetic of the real numbers. In the float32
  arithmetic of the arrays the same loop leaves 14428405 / 8388608, about 1.7199999,
  which is less than \<open>2\<^sup>-\<^sup>2\<^sup>3\<close> away from 1.72.
\<close>

theorem discounted_return_example:
  "(\<exists>acc. a2c_loop g sample [[r0], [r1], [r2]] [[m0], [m1], [m2]] [[v0], [v1], [v2]]
            [[p0], [p1], [p2]] [[h0], [h1], [h2]] 3
            \<lparr>discount_reward = [b], rl_loss = 0, total = 0\<rparr> = Inr acc \<and>
          discount_reward acc = [r0 + g * (r1 + g * (r2 + g * b))]) \<and>
   (\<exists>acc. a2c_loop (9 / 10) sample [[1], [- 1], [2]] [[1], [1], [1]] [[v0], [v1], [v2]]
            [[p0], [p1], [p2]] [[h0], [h1], [h2]] 3
            \<lparr>discount_reward = bootstrap [True] [v3], rl_loss = 0, total = 0\<rparr> = Inr acc \<and>
          discount_reward acc = [172 / 100] \<and>
          discount_reward acc = [1 + 9 / 10 * (- 1 + 9 / 10 * 2)]) \<and>
   discount_loop32 (9 / 10) [[1], [- 1], [2]] 3 [0] = [14428405 / 8388608] \<and>
   \<bar>172 / 100 - 14428405 / 8388608\<bar> < (1 / 2 ^ 23 :: rat)"
proof (intro conjI)
  show "\<exists>acc. a2c_loop g sample [[r0], [r1], [r2]] [[m0], [m1], [m2]] [[v0], [v1], [v2]]
            [[p0], [p1], [p2]] [[h0], [h1], [h2]] 3
            \<lparr>discount_reward = [b], rl_loss = 0, total = 0\<rparr> = Inr acc \<and>
          discount_reward acc = [r0 + g * (r1 + g * (r2 + g * b))]"
    by (simp add: numeral_3_eq_3 a2c_step_def discount_step_def index_def Let_def
        algebra_simps)
  show "\<exists>acc. a2c_loop (9 / 10) sample [[1], [- 1], [2]] [[1], [1], [1]] [[v0], [v1], [v2]]
            [[p0], [p1], [p2]] [[h0], [h1], [h2]] 3
            \<lparr>discount_reward = bootstrap [True] [v3], rl_loss = 0, total = 0\<rparr> = Inr acc \<and>
          discount_reward acc = [172 / 100] \<and>
          discount_reward acc = [1 + 9 / 10 * (- 1 + 9 / 10 * 2)]"
    by (simp add: numeral_3_eq_3 a2c_step_def discount_step_def index_def bootstrap_def
        Let_def)
  show "discount_loop32 (9 / 10) [[1], [- 1], [2]] 3 [0] = [14428405 / 8388608]"
    by code_simp
  show "\<bar>172 / 100 - 14428405 / 8388608\<bar> < (1 / 2 ^ 23 :: rat)"
    by simp
qed

text \<open>
  The claim as the specification words it has the return equal to 1.72 exactly. The
  float32 value that the loop leaves is neither 1.72 nor the float32 nearest to 1.72.
\<close>

theorem discounted_return_counterexample:
  "discount_loop32 (9 / 10) [[1], [- 1], [2]] 3 [0] \<noteq> [172 / 100] \<and>
   discount_loop32 (9 / 10) [[1], [- 1], [2]] 3 [0] \<noteq> [round32 (172 / 100)]"
  by code_simp

subsection \<open>Candidate feature builder\<close>

lemma length_fill_candidates: "length (fill_candidates t j ccs rows) = length rows"
  by (induction ccs arbitrary: j rows) simp_all

lemma fill_candidates_below:
  "k < j + t \<Longrightarrow> fill_candidates t j ccs rows ! k = rows ! k"
  by (induction ccs arbitrary: j rows) simp_all

lemma fill_candidates_nth:
  "m < length ccs \<Longrightarrow> j + m + t < length rows \<Longrightarrow>
   fill_candidates t j ccs rows ! (j + m + t) = feature (ccs ! m)"
proof (induction ccs arbitrary: j m rows)
  case Nil
  then show ?case by simp
next
  case (Cons cc ccs)
  show ?case
  proof (cases m)
    case 0
    with Cons.prems show ?thesis
      by (simp add: fill_candidates_below)
  next
    case (Suc m')
    with Cons.prems Cons.IH [of m' "Suc j" "rows[j + t := feature cc]"] show ?thesis
      by simp
  qed
qed

lemma length_history_rows:
  "t - 1 \<le> length vis_i \<Longrightarrow> t - 1 \<le> length rows \<Longrightarrow>
   length (history_rows fs afs t vis_i a_i rows) = length rows"
  by (simp add: history_rows_def Let_def)

lemma history_rows_below:
  "k < t - 1 \<Longrightarrow> t - 1 \<le> length vis_i \<Longrightarrow>
   history_rows fs afs t vis_i a_i rows ! k = vis_i ! k"
  by (simp add: history_rows_def Let_def nth_append)

lemma history_rows_last:
  assumes "0 < afs" and "t - 1 < length vis_i" and "t - 1 < n"
    and "length (vis_i ! (t - 1)) = fs + afs"
  shows "history_rows fs afs t vis_i a_i (replicate n (replicate (fs + afs) 0))
           ! (t - 1) = take fs (vis_i ! (t - 1)) @ a_i"
  using assms by (simp add: history_rows_def Let_def nth_append neg_start_def)

lemma candidate_leng_le_Max:
  "i < length obs \<Longrightarrow> candidate_leng obs t ! i \<le> Max (set (candidate_leng obs t))"
  by (simp add: candidate_leng_def)

text \<open>
  Claim C1, as the code has it. For \<open>t > 0\<close> and every item, the tensor that
  \<^verbatim>\<open>_candidate_variable\<close> returns has its rows \<open>0 .. t - 2\<close> equal to the rows of the
  memory bank; row \<open>t - 1\<close> has the bank's first \<^verbatim>\<open>feature_size\<close> entries followed by
  the current angle feature \<^verbatim>\<open>input_a_t\<close>, not the bank's own last entries; and
  candidate \<open>j\<close> of the observation is at row \<open>j + t\<close>. The length reported for the item
  is its number of candidates plus \<open>1 + t\<close>.
\<close>

theorem candidate_variable_rows:
  assumes "0 < t" and "i < length obs" and "0 < afs"
    and "t \<le> length (bank ! i)"
    and "length (bank ! i ! (t - 1)) = fs + afs"
    and "length (input_a_t ! i) = afs"
  shows "\<exists>cf leng. candidate_variable fs afs obs t bank input_a_t = Inr (cf, leng) \<and>
    leng ! i = length (candidate (obs ! i)) + 1 + t \<and>
    (\<forall>k < t - 1. cf ! i ! k = bank ! i ! k) \<and>
    take fs (cf ! i ! (t - 1)) = take fs (bank ! i ! (t - 1)) \<and>
    drop fs (cf ! i ! (t - 1)) = input_a_t ! i \<and>
    (\<forall>j < length (candidate (obs ! i)). cf ! i ! (j + t) = feature (candidate (obs ! i) ! j))"
proof -
  let ?leng = "candidate_leng obs t"
  let ?n = "Max (set ?leng)"
  let ?zeros = "replicate ?n (replicate (fs + afs) (0::real))"
  let ?cs = "candidate (obs ! i)"
  let ?h = "history_rows fs afs t (bank ! i) (input_a_t ! i) ?zeros"
  let ?rows = "fill_candidates t 0 ?cs ?h"
  let ?cf = "map (\<lambda>i. fill_candidates t 0 (candidate (obs ! i))
                (history_rows fs afs t (bank ! i) (input_a_t ! i) ?zeros)) [0..<length obs]"
  have ne: "?leng \<noteq> []"
    using assms(2) by (auto simp: candidate_leng_def)
  have ret: "candidate_variable fs afs obs t bank input_a_t = Inr (?cf, ?leng)"
    using ne assms(1) by (simp add: candidate_variable_def Let_def)
  have row: "?cf ! i = ?rows"
    using assms(2) by simp
  have li: "?leng ! i = length ?cs + 1 + t"
    using assms(2) by (simp add: candidate_leng_def)
  have n: "length ?cs + 1 + t \<le> ?n"
    using candidate_leng_le_Max [OF assms(2), of t] li by simp
  have lh: "length ?h = ?n"
    using assms(4) n by (simp add: length_history_rows)
  have below: "?rows ! k = bank ! i ! k" if "k < t - 1" for k
  proof -
    have "?rows ! k = ?h ! k"
      using that by (simp add: fill_candidates_below)
    also have "\<dots> = bank ! i ! k"
      using that assms(4) by (simp add: history_rows_below)
    finally show ?thesis .
  qed
  have last: "?rows ! (t - 1) = take fs (bank ! i ! (t - 1)) @ input_a_t ! i"
  proof -
    have "?rows ! (t - 1) = ?h ! (t - 1)"
      using assms(1) by (simp add: fill_candidates_below)
    also have "\<dots> = take fs (bank ! i ! (t - 1)) @ input_a_t ! i"
      using assms(1,3,4,5) n by (intro history_rows_last) simp_all
    finally show ?thesis .
  qed
  have cands: "?rows ! (j + t) = feature (?cs ! j)" if "j < length ?cs" for j
    using fill_candidates_nth [of j ?cs 0 t ?h] that lh n by simp
  have vis: "take fs (?rows ! (t - 1)) = take fs (bank ! i ! (t - 1))"
    unfolding last using assms(5) by simp
  have ang: "drop fs (?rows ! (t - 1)) = input_a_t ! i"
    unfolding last using assms(5) by simp
  show ?thesis
    using ret li below vis ang cands unfolding row [symmetric] by blast
qed


theorem candidate_variable_rows_witness:
  "candidate_variable 1 1 [example_ob [] [example_cand ''A'' [7, 8]] ''A'' 1] 2
     [[[1, 0], [3, 0]]] [[9]] = Inr ([[[1, 0], [3, 9], [7, 8], [0, 0]]], [4])"
  using candidate_variable_rows [of 2 0 "[example_ob [] [example_cand ''A'' [7, 8]] ''A'' 1]" 1
      "[[[1, 0], [3, 0]]]" 1 "[[9]]"]
  by (simp add: candidate_variable_def candidate_leng_def history_rows_def neg_start_def
      example_ob_def example_cand_def Let_def)

text \<open>
  The claim as the specification words it has the first \<open>t\<close> rows equal to the bank's.
  At \<open>t = 2\<close>, with the bank rows \<open>[1, 0]\<close> and \<open>[3, 0]\<close> and the angle feature
  \<open>[9]\<close>, row 1 of the result is \<open>[3, 9]\<close>.
\<close>

theorem candidate_variable_counterexample:
  "candidate_variable 1 1 [example_ob [] [example_cand ''A'' [7, 8]] ''A'' 1] 2
     [[[1, 0], [3, 0]]] [[9]] = Inr ([[[1, 0], [3, 9], [7, 8], [0, 0]]], [4]) \<and>
   [[[1, 0], [3, 9], [7, 8], [0, 0 :: real]]] ! 0 ! 1 \<noteq> [[[1, 0], [3, 0]]] ! 0 ! 1"
  by (simp add: candidate_variable_def candidate_leng_def history_rows_def neg_start_def
      example_ob_def example_cand_def Let_def)

subsection \<open>Batch preprocessor\<close>











subsection \<open>Stop action\<close>

declare rollout_loop.simps [simp del]
declare rollout_trace.simps [simp del]

lemma convert_actions_nth:
  "i < length a_t \<Longrightarrow>
   convert_actions ig leng t a_t flags ! i
     = (if is_stop ig (leng ! i) t (a_t ! i) (flags ! i) then - 1 else a_t ! i)"
  by (simp add: convert_actions_def)

text \<open>
  Claim C5. At timestep \<open>t\<close> the length that masks the logits of an item,
  \<^verbatim>\<open>candidate_leng[i] - t\<close>, is the number of the observation's candidates plus one: the
  candidates and the stop slot after them. The index that the loop before the actuation
  compares with, \<^verbatim>\<open>candidate_leng[i]-1-t\<close>, is the last index of that space, that is the
  number of the observation's candidates. A chosen action equal to it becomes \<^verbatim>\<open>-1\<close> in
  the actions handed to \<^verbatim>\<open>make_equiv_action\<close>; any other action of an item that has
  not ended, the ignore index apart, is handed on as it is.
\<close>

theorem stop_index_last_slot:
  assumes "i < length obs" and "length a_t = length obs"
  shows "candidate_leng obs t ! i - t = length (candidate (obs ! i)) + 1 \<and>
         int (candidate_leng obs t ! i) - 1 - int t = int (candidate_leng obs t ! i - t) - 1 \<and>
         int (candidate_leng obs t ! i) - 1 - int t = int (length (candidate (obs ! i))) \<and>
         (a_t ! i = int (candidate_leng obs t ! i - t) - 1 \<longrightarrow>
            convert_actions ig (candidate_leng obs t) t a_t flags ! i = - 1) \<and>
         (a_t ! i \<noteq> int (candidate_leng obs t ! i - t) - 1 \<and> a_t ! i \<noteq> ig \<and> \<not> flags ! i \<longrightarrow>
            convert_actions ig (candidate_leng obs t) t a_t flags ! i = a_t ! i)"
proof -
  have l: "candidate_leng obs t ! i = length (candidate (obs ! i)) + 1 + t"
    using assms(1) by (simp add: candidate_leng_def)
  have i: "i < length a_t"
    using assms by simp
  show ?thesis
    unfolding convert_actions_nth [OF i] l by (simp add: is_stop_def)
qed

theorem stop_index_last_slot_witness:
  "candidate_leng [example_ob [] three_cands ''B'' 1] 2 ! 0 - 2 = 4 \<and>
   convert_actions (- 100) (candidate_leng [example_ob [] three_cands ''B'' 1] 2) 2 [3] [False]
     = [- 1] \<and>
   convert_actions (- 100) (candidate_leng [example_ob [] three_cands ''B'' 1] 2) 2 [2] [False]
     = [2]"
  using stop_index_last_slot [of 0 "[example_ob [] three_cands ''B'' 1]" "[3]" 2 "- 100" "[False]"]
    stop_index_last_slot [of 0 "[example_ob [] three_cands ''B'' 1]" "[2]" 2 "- 100" "[False]"]
  by (simp add: convert_actions_def candidate_leng_def example_ob_def three_cands_def
      is_stop_def)

subsection \<open>The ended flags\<close>

lemma length_update_ended: "length (update_ended flags cpu) = length flags"
  by (simp add: update_ended_def)

lemma update_ended_keeps: "i < length flags \<Longrightarrow> flags ! i \<Longrightarrow> update_ended flags cpu ! i"
  by (simp add: update_ended_def)

lemma reward_block_ended: "reward_block W rl old cpu s = Inr s' \<Longrightarrow> ended s' = ended s"
  by (auto simp: reward_block_def split: if_splits sum.splits)

lemma rollout_step_ended:
  assumes "rollout_step W fb rl sb att t s = Inr s'"
  shows "\<exists>cpu. ended s' = update_ended (ended s) cpu"
  using assms unfolding rollout_step_def Let_def
  by (auto split: sum.splits prod.splits dest!: reward_block_ended)

lemma rollout_step_mono:
  assumes "rollout_step W fb rl sb att t s = Inr s'"
  shows "length (ended s') = length (ended s)"
    and "i < length (ended s) \<Longrightarrow> ended s ! i \<Longrightarrow> ended s' ! i"
proof -
  from rollout_step_ended [OF assms] obtain cpu
    where e: "ended s' = update_ended (ended s) cpu" by blast
  show "length (ended s') = length (ended s)"
    by (simp add: e length_update_ended)
  show "i < length (ended s) \<Longrightarrow> ended s ! i \<Longrightarrow> ended s' ! i"
    by (simp add: e update_ended_keeps)
qed

lemma rollout_trace_above:
  assumes "x \<in> set (rollout_trace W fb rl sb att t s)"
  shows "length (ended x) = length (ended s) \<and>
         (i < length (ended s) \<longrightarrow> ended s ! i \<longrightarrow> ended x ! i)"
  using assms
proof (induction W fb rl sb att t s rule: rollout_trace.induct)
  case (1 W fb rl sb att t s)
  define rest where "rest =
    (if t < w_episode_len W then
       (case rollout_step W fb rl sb att t s of
          Inl err \<Rightarrow> []
        | Inr s' \<Rightarrow>
            if list_all (\<lambda>b. b) (ended s') then [s']
            else rollout_trace W fb rl sb att (Suc t) s')
     else [])"
  have unf: "rollout_trace W fb rl sb att t s = s # rest"
    by (subst rollout_trace.simps) (simp add: rest_def)
  show ?case
  proof (cases "x = s")
    case True
    then show ?thesis by simp
  next
    case False
    with "1.prems" have xr: "x \<in> set rest"
      by (simp add: unf)
    have t: "t < w_episode_len W"
    proof (rule ccontr)
      assume "\<not> t < w_episode_len W"
      then have "rest = []" by (simp add: rest_def)
      with xr show False by simp
    qed
    have "\<exists>s'. rollout_step W fb rl sb att t s = Inr s'"
    proof (cases "rollout_step W fb rl sb att t s")
      case (Inl err)
      with t have "rest = []" by (simp add: rest_def)
      with xr show ?thesis by simp
    next
      case (Inr s')
      then show ?thesis by blast
    qed
    then obtain s' where st: "rollout_step W fb rl sb att t s = Inr s'"
      by blast
    note m = rollout_step_mono [OF st]
    show ?thesis
    proof (cases "list_all (\<lambda>b. b) (ended s')")
      case True
      with xr t st have "x = s'"
        by (simp add: rest_def)
      with m show ?thesis by simp
    next
      case all: False
      with xr t st
      have "x \<in> set (rollout_trace W fb rl sb att (Suc t) s')"
        by (simp add: rest_def)
      from "1.IH" [OF t st all this] m show ?thesis
        by simp
    qed
  qed
qed

lemma rollout_trace_sorted:
  assumes "i < length (ended s)"
  shows "sorted_wrt (\<lambda>a b. ended a ! i \<longrightarrow> ended b ! i) (rollout_trace W fb rl sb att t s)"
  using assms
proof (induction W fb rl sb att t s rule: rollout_trace.induct)
  case (1 W fb rl sb att t s)
  have head: "\<forall>x \<in> set (rollout_trace W fb rl sb att t s). ended s ! i \<longrightarrow> ended x ! i"
    using rollout_trace_above [of _ W fb rl sb att t s i] "1.prems" by blast
  show ?case
  proof (cases "t < w_episode_len W")
    case False
    then show ?thesis
      by (subst rollout_trace.simps) simp
  next
    case t: True
    show ?thesis
    proof (cases "rollout_step W fb rl sb att t s")
      case (Inl err)
      with t show ?thesis
        by (subst rollout_trace.simps) simp
    next
      case (Inr s')
      note m = rollout_step_mono [OF Inr]
      show ?thesis
      proof (cases "list_all (\<lambda>b. b) (ended s')")
        case True
        with t Inr m "1.prems" show ?thesis
          by (subst rollout_trace.simps) simp
      next
        case all: False
        have tl: "sorted_wrt (\<lambda>a b. ended a ! i \<longrightarrow> ended b ! i)
                    (rollout_trace W fb rl sb att (Suc t) s')"
          using "1.IH" [OF t Inr all] "1.prems" m by simp
        have eq: "rollout_trace W fb rl sb att t s
                    = s # rollout_trace W fb rl sb att (Suc t) s'"
          using t Inr all by (subst rollout_trace.simps) simp
        from head tl show ?thesis
          unfolding eq by simp
      qed
    qed
  qed
qed

text \<open>The state the loop returns is the last state of the trace.\<close>

lemma rollout_loop_last:
  "rollout_loop W fb rl sb att t s = Inr s' \<Longrightarrow> s' = last (rollout_trace W fb rl sb att t s)"
proof (induction W fb rl sb att t s rule: rollout_loop.induct)
  case (1 W fb rl sb att t s)
  note lp = rollout_loop.simps [of W fb rl sb att t s]
  note tr = rollout_trace.simps [of W fb rl sb att t s]
  show ?case
  proof (cases "t < w_episode_len W")
    case False
    with "1.prems" show ?thesis
      unfolding lp tr by simp
  next
    case t: True
    with "1.prems" obtain s1 where st: "rollout_step W fb rl sb att t s = Inr s1"
      by (auto simp: lp split: sum.splits)
    show ?thesis
    proof (cases "list_all (\<lambda>b. b) (ended s1)")
      case True
      with t st "1.prems" show ?thesis
        unfolding lp tr by simp
    next
      case all: False
      with t st "1.prems" have "rollout_loop W fb rl sb att (Suc t) s1 = Inr s'"
        by (simp add: lp)
      from "1.IH" [OF t st all this]
      have "s' = last (rollout_trace W fb rl sb att (Suc t) s1)" .
      moreover have "rollout_trace W fb rl sb att (Suc t) s1 \<noteq> []"
        by (subst rollout_trace.simps) simp
      ultimately show ?thesis
        using t st all unfolding tr by simp
    qed
  qed
qed

text \<open>
  Claim C7. Along the states of one episode, from the state the loop is entered with
  through the state after each timestep, the flag \<^verbatim>\<open>ended[i]\<close> of every item of the
  batch never goes back from true to false: if it holds after \<open>j\<close> timesteps it holds
  after \<open>k \<ge> j\<close> timesteps.
\<close>

theorem ended_monotonic:
  assumes "i < length (ended s)" and "j \<le> k"
    and "k < length (rollout_trace W fb rl sb att t s)"
  shows "ended (rollout_trace W fb rl sb att t s ! j) ! i
           \<longrightarrow> ended (rollout_trace W fb rl sb att t s ! k) ! i"
proof (cases "j = k")
  case True
  then show ?thesis by simp
next
  case False
  with assms(2) have "j < k" by simp
  with rollout_trace_sorted [OF assms(1), of W fb rl sb att t] assms(3) show ?thesis
    by (simp add: sorted_wrt_iff_nth_less)
qed

theorem ended_monotonic_witness:
  "map ended (rollout_trace example_world ''teacher'' False example_batch (1 / 2) 0 example_state)
     = [[False, False], [False, False], [True, False], [True, True]] \<and>
   ended (rollout_trace example_world ''teacher'' False example_batch (1 / 2) 0 example_state ! 2) ! 0 \<and>
   ended (rollout_trace example_world ''teacher'' False example_batch (1 / 2) 0 example_state ! 3) ! 0"
proof -
  let ?tr = "rollout_trace example_world ''teacher'' False example_batch (1 / 2) 0 example_state"
  have ev: "map ended ?tr = [[False, False], [False, False], [True, False], [True, True]]"
    by code_simp
  have h1: "0 < length (ended example_state)"
    by (simp add: example_state_def)
  have h2: "(2::nat) \<le> 3"
    by simp
  have "length (map ended ?tr) = 4"
    unfolding ev by simp
  then have h3: "3 < length ?tr"
    by simp
  have "map ended ?tr ! 2 ! 0"
    unfolding ev by simp
  then have at2: "ended (?tr ! 2) ! 0"
    using h3 by simp
  from ended_monotonic [OF h1 h2 h3] at2 have "ended (?tr ! 3) ! 0"
    by blast
  with ev at2 show ?thesis
    by blast
qed

subsection \<open>Reinforcement learning switched off\<close>

lemma rollout_step_no_rl:
  assumes "rollout_step W fb False sb att t s = Inr s'"
  shows "rewards s' = rewards s \<and> masks s' = masks s"
  using assms unfolding rollout_step_def Let_def
  by (auto simp: reward_block_def split: sum.splits prod.splits)

lemma rollout_loop_no_rl:
  "rollout_loop W fb False sb att t s = Inr s' \<Longrightarrow> rewards s' = rewards s \<and> masks s' = masks s"
proof (induction W fb "False" sb att t s rule: rollout_loop.induct)
  case (1 W fb sb att t s)
  note lp = rollout_loop.simps [of W fb False sb att t s]
  show ?case
  proof (cases "t < w_episode_len W")
    case False
    with "1.prems" show ?thesis
      unfolding lp by simp
  next
    case t: True
    with "1.prems" obtain s1 where st: "rollout_step W fb False sb att t s = Inr s1"
      by (auto simp: lp split: sum.splits)
    note one = rollout_step_no_rl [OF st]
    show ?thesis
    proof (cases "list_all (\<lambda>b. b) (ended s1)")
      case True
      with t st "1.prems" have "s' = s1"
        unfolding lp by simp
      with one show ?thesis by simp
    next
      case all: False
      with t st "1.prems" have "rollout_loop W fb False sb att (Suc t) s1 = Inr s'"
        by (simp add: lp)
      from "1.hyps" [OF t st all this] one show ?thesis
        by simp
    qed
  qed
qed

lemma rollout_body_no_rl_loss:
  assumes "rollout_body W ag None None None att False reset = Inr (tr, ag')"
  shows "loss ag' = loss ag"
  using assms unfolding rollout_body_def Let_def add_losses_def
  by (auto split: sum.splits)

text \<open>
  Claim C10. When the feedback mode is \<^verbatim>\<open>'teacher'\<close> or \<^verbatim>\<open>'argmax'\<close>, a call of
  \<^verbatim>\<open>rollout\<close> with \<^verbatim>\<open>train_rl=True\<close> is the call with \<^verbatim>\<open>train_rl=False\<close>: the same
  trajectories, the same agent (loss included) or the same exception. It runs the body
  with the flag off, where the loop leaves the lists of rewards and masks as they were
  (empty), and where, with no other loss term asked for, \<^verbatim>\<open>self.loss\<close> is returned
  unchanged.
\<close>

theorem rollout_train_rl_forced_off:
  assumes "feedback ag = ''teacher'' \<or> feedback ag = ''argmax''"
  shows "rollout W ag ml dl dc att True reset = rollout W ag ml dl dc att False reset \<and>
         rollout W ag ml dl dc att True reset = rollout_body W ag ml dl dc att False reset \<and>
         (\<forall>sb t s s'. rollout_loop W (feedback ag) False sb att t s = Inr s'
            \<longrightarrow> rewards s' = rewards s \<and> masks s' = masks s) \<and>
         (\<forall>tr ag'. rollout W ag None None None att True reset = Inr (tr, ag')
            \<longrightarrow> loss ag' = loss ag)"
proof (intro conjI allI impI)
  show "rollout W ag ml dl dc att True reset = rollout W ag ml dl dc att False reset"
    using assms by (simp add: rollout_def)
  show "rollout W ag ml dl dc att True reset = rollout_body W ag ml dl dc att False reset"
    using assms by (simp add: rollout_def)
  show "rewards s' = rewards s" and "masks s' = masks s"
    if "rollout_loop W (feedback ag) False sb att t s = Inr s'" for sb t s s'
    using rollout_loop_no_rl [OF that] by simp_all
  show "loss ag' = loss ag"
    if "rollout W ag None None None att True reset = Inr (tr, ag')" for tr ag'
  proof -
    from that assms have "rollout_body W ag None None None att False reset = Inr (tr, ag')"
      by (simp add: rollout_def)
    then show ?thesis
      by (rule rollout_body_no_rl_loss)
  qed
qed

theorem rollout_train_rl_forced_off_witness:
  "rollout example_world (example_agent ''argmax'') None None None (1 / 2) True False
     = rollout example_world (example_agent ''argmax'') None None None (1 / 2) False False \<and>
   (case rollout_loop example_world ''argmax'' False example_batch (1 / 2) 0 example_state of
      Inl err \<Rightarrow> False
    | Inr s \<Rightarrow> rewards s = [] \<and> masks s = [] \<and> ended s = [True, True])"
proof -
  have h: "feedback (example_agent ''argmax'') = ''teacher''
             \<or> feedback (example_agent ''argmax'') = ''argmax''"
    by (simp add: example_agent_def)
  have ev: "(case rollout_loop example_world ''argmax'' False example_batch (1 / 2) 0 example_state of
      Inl err \<Rightarrow> False
    | Inr s \<Rightarrow> rewards s = [] \<and> masks s = [] \<and> ended s = [True, True])"
    by code_simp
  from rollout_train_rl_forced_off [OF h, of example_world None None None "1 / 2" False] ev
  show ?thesis
    by blast
qed


end
